theory Spec2Isabelle
  imports Complex_Main
begin

section \<open>JavaScript values used by the client\<close>

text \<open>
  The client is TypeScript. An optional field (\<open>f?: T\<close>) or a possibly-null object is an
  \<open>option\<close>; \<open>None\<close> is \<open>undefined\<close>/\<open>null\<close>. The operator \<open>a || b\<close> yields \<open>b\<close> exactly when
  \<open>a\<close> is falsy. An array or object that is present is always truthy (also the empty
  array); a string is falsy when it is empty; a number is falsy when it is \<open>0\<close> or \<open>NaN\<close>.
  Strings are lists of \<open>char\<close>; characters beyond Latin-1 are outside this model.
\<close>

definition obj_or :: "'a option \<Rightarrow> 'a \<Rightarrow> 'a" where
  "obj_or a b = (case a of None \<Rightarrow> b | Some v \<Rightarrow> v)"

definition str_or :: "string option \<Rightarrow> string \<Rightarrow> string" where
  "str_or a b = (case a of None \<Rightarrow> b | Some s \<Rightarrow> if s = [] then b else s)"

definition num_or :: "int option \<Rightarrow> int \<Rightarrow> int" where
  "num_or a b = (case a of None \<Rightarrow> b | Some n \<Rightarrow> if n = 0 then b else n)"

text \<open>
  \<open>StrWhiteSpaceChar\<close> of ECMAScript restricted to Latin-1: TAB, LF, VT, FF, CR, SP, NBSP.
  It is the set skipped by \<open>parseInt\<close> and removed by \<open>String.prototype.trim\<close>.
\<close>

definition isStrWhiteSpaceChar :: "char \<Rightarrow> bool" where
  "isStrWhiteSpaceChar c =
     ((of_char c :: nat) = 9 \<or> (of_char c :: nat) = 10 \<or> (of_char c :: nat) = 11 \<or>
      (of_char c :: nat) = 12 \<or> (of_char c :: nat) = 13 \<or> (of_char c :: nat) = 32 \<or>
      (of_char c :: nat) = 160)"

definition trim :: "string \<Rightarrow> string" where
  "trim s = rev (dropWhile isStrWhiteSpaceChar (rev (dropWhile isStrWhiteSpaceChar s)))"

text \<open>The value of a character as a digit in some radix up to 36, if it is one.\<close>

definition digitVal :: "char \<Rightarrow> nat option" where
  "digitVal c =
     (let n = (of_char c :: nat) in
      if 48 \<le> n \<and> n \<le> 57 then Some (n - 48)
      else if 97 \<le> n \<and> n \<le> 122 then Some (n - 87)
      else if 65 \<le> n \<and> n \<le> 90 then Some (n - 55)
      else None)"

definition isRadixDigit :: "nat \<Rightarrow> char \<Rightarrow> bool" where
  "isRadixDigit R c = (case digitVal c of None \<Rightarrow> False | Some d \<Rightarrow> d < R)"

fun radixValue :: "nat \<Rightarrow> nat \<Rightarrow> string \<Rightarrow> nat" where
  "radixValue R acc [] = acc"
| "radixValue R acc (c # cs) = radixValue R (acc * R + (case digitVal c of None \<Rightarrow> 0 | Some d \<Rightarrow> d)) cs"

text \<open>
  \<open>parseInt(string)\<close> with no radix argument, after ECMAScript 19.2.5: skip leading white
  space, take an optional sign, strip a \<open>0x\<close>/\<open>0X\<close> prefix (radix 16, else radix 10), read the
  longest prefix of digits; \<open>NaN\<close> (here \<open>None\<close>) when that prefix is empty. The result
  here is the signed mathematical integer of the digits. JavaScript returns that integer
  rounded to a double (\<open>numberOfInt\<close> below); the rounded value compares with \<open>500\<close> and
  \<open>16000\<close> as the integer does, because rounding is monotone and both bounds are doubles,
  and it is the integer itself below \<open>2^53\<close>.
\<close>

definition parseInt :: "string \<Rightarrow> int option" where
  "parseInt inputString =
     (let S = dropWhile isStrWhiteSpaceChar inputString;
          sign = (if S \<noteq> [] \<and> hd S = CHR ''-'' then (-1::int) else 1);
          S1 = (if S \<noteq> [] \<and> (hd S = CHR ''+'' \<or> hd S = CHR ''-'') then tl S else S);
          hex = (length S1 \<ge> 2 \<and> (take 2 S1 = ''0x'' \<or> take 2 S1 = ''0X''));
          R = (if hex then 16 else 10);
          S2 = (if hex then drop 2 S1 else S1);
          Z = takeWhile (isRadixDigit R) S2
      in if Z = [] then None else Some (sign * int (radixValue R 0 Z)))"

text \<open>
  The Number values that \<open>parseInt\<close> returns besides \<open>NaN\<close>: an integer that is a double, or
  an infinity.
\<close>

datatype jsNumber = NegInfinity | Num int | PosInfinity

fun bitLength :: "nat \<Rightarrow> nat" where
  "bitLength n = (if n = 0 then 0 else Suc (bitLength (n div 2)))"

text \<open>
  The double nearest to a natural number, ties to even: 53 significant bits are kept, and
  what rounds to \<open>2^1024\<close> or more is \<open>Infinity\<close> (here \<open>None\<close>). (Past 20 significant
  decimal digits ECMAScript lets \<open>parseInt\<close> approximate; the correctly rounded value is
  taken here.)
\<close>

definition roundToDouble :: "nat \<Rightarrow> nat option" where
  "roundToDouble n =
     (if n < 2 ^ 53 then Some n
      else
        (let e = bitLength n - 53;
             q = n div 2 ^ e;
             r = n mod 2 ^ e;
             half = 2 ^ (e - 1);
             q' = (if r > half \<or> (r = half \<and> odd q) then q + 1 else q);
             v = q' * 2 ^ e
         in if v \<ge> 2 ^ 1024 then None else Some v))"

definition numberOfInt :: "int \<Rightarrow> jsNumber" where
  "numberOfInt i =
     (case roundToDouble (nat \<bar>i\<bar>) of
        None \<Rightarrow> if i < 0 then NegInfinity else PosInfinity
      | Some v \<Rightarrow> Num (if i < 0 then - int v else int v))"

text \<open>\<open>x >= k\<close> for a Number \<open>x\<close> and an integer \<open>k\<close>.\<close>

definition numGe :: "jsNumber \<Rightarrow> int \<Rightarrow> bool" where
  "numGe x k = (case x of NegInfinity \<Rightarrow> False | Num n \<Rightarrow> k \<le> n | PosInfinity \<Rightarrow> True)"

text \<open>
  The delay a browser takes from the second argument of \<open>setInterval\<close>: the argument is a
  Web IDL \<open>long\<close>, so the Number is converted as by \<open>ToInt32\<close> (an infinity becomes 0, an
  integer is reduced modulo \<open>2^32\<close> into the signed 32-bit range), and a negative delay is
  taken as 0. (A browser also raises the delay of a deeply nested timer to 4 ms; that
  does not concern delays of 4 ms and more and is left out.)
\<close>

definition toInt32 :: "int \<Rightarrow> int" where
  "toInt32 n = (let w = n mod 2 ^ 32 in if w \<ge> 2 ^ 31 then w - 2 ^ 32 else w)"

definition timerDelay :: "jsNumber \<Rightarrow> int" where
  "timerDelay x = (case x of Num n \<Rightarrow> max 0 (toInt32 n) | _ \<Rightarrow> 0)"

text \<open>\<open>Number.prototype.toString()\<close> on an integer: its decimal numeral.\<close>

definition digitChar :: "nat \<Rightarrow> char" where
  "digitChar d = ''0123456789'' ! d"

fun natToString :: "nat \<Rightarrow> string" where
  "natToString n =
     (if n < 10 then [digitChar n]
      else natToString (n div 10) @ [digitChar (n mod 10)])"

definition numberToString :: "int \<Rightarrow> string" where
  "numberToString i = (if i < 0 then CHR ''-'' # natToString (nat (- i)) else natToString (nat i))"

section \<open>Data model (frontend/src/types, MeetingDetail.tsx)\<close>

record AgentWeights =
  finance :: real
  technology :: real
  operations :: real
  people_hr :: real
  logistics :: real

record AgentOpinion =
  agent_id :: string
  agent_name :: string
  agent_role :: string
  opinion :: string
  reasoning :: string
  confidence :: real
  weights_applied :: AgentWeights
  timestamp :: string

record FollowUpQuestion =
  fu_id :: string
  question :: string
  chair_response :: "string option"
  created_at :: string
  fu_version :: "int option"

record MeetingFile =
  file_id :: string
  filename :: string
  file_type :: string
  uploaded_at :: string

record OpinionVersion =
  ov_version :: int
  ov_opinions :: "AgentOpinion list"
  ov_chair_summary :: string
  ov_chair_recommendation :: string
  ov_follow_ups :: "FollowUpQuestion list option"
  generated_at :: string
  generated_by :: "int option"

text \<open>
  A diagnostic log entry, with the fields the page reads from \<open>meeting.debug_logs\<close>:
  \<open>level\<close>, \<open>agent_name\<close>, \<open>message\<close>, the optional \<open>details\<close> payload and \<open>timestamp\<close>.
\<close>

record DebugLog =
  level :: string
  log_agent_name :: string
  message :: string
  details :: "string option"
  log_timestamp :: string

datatype MeetingStatus = in_progress | completed

record Meeting =
  meeting_id :: string
  user_id :: int
  m_question :: string
  m_context :: "string option"
  opinions :: "AgentOpinion list"
  chair_summary :: string
  chair_recommendation :: string
  status :: MeetingStatus
  m_created_at :: string
  completed_at :: "string option"
  follow_ups :: "FollowUpQuestion list option"
  attached_files :: "MeetingFile list option"
  current_version :: "int option"
  opinion_history :: "OpinionVersion list option"
  debug_logs :: "DebugLog list option"

record User =
  is_admin :: bool

text \<open>\<open>user?.is_admin\<close> as a condition: false when there is no user.\<close>

definition userIsAdmin :: "User option \<Rightarrow> bool" where
  "userIsAdmin u = (case u of None \<Rightarrow> False | Some x \<Rightarrow> is_admin x)"

section \<open>State of the MeetingDetail page\<close>

text \<open>
  One field per \<open>useState\<close> of the component, in the order of the source, and
  \<open>pollingIntervalRef\<close>, which holds the running interval timer: \<open>Some d\<close> is a timer
  that fires every \<open>d\<close> milliseconds. Toast notifications and console output are not
  state of the component and are left out of the handlers below.
\<close>

record PageState =
  meeting :: "Meeting option"
  loading :: bool
  regenerating :: bool
  showFollowUp :: bool
  followUpQuestion :: string
  submittingFollowUp :: bool
  followUps :: "FollowUpQuestion list"
  meetingFiles :: "MeetingFile list"
  uploadingFile :: bool
  showVersionHistory :: bool
  selectedVersion :: "OpinionVersion option"
  restoringVersion :: bool
  showDebugLogs :: bool
  expandedLogIds :: "int set"
  pollingIntervalMs :: jsNumber
  pollingIntervalRef :: "int option"

definition initialState :: PageState where
  "initialState =
     \<lparr> meeting = None, loading = True, regenerating = False, showFollowUp = False,
       followUpQuestion = [], submittingFollowUp = False, followUps = [],
       meetingFiles = [], uploadingFile = False, showVersionHistory = False,
       selectedVersion = None, restoringVersion = False, showDebugLogs = False,
       expandedLogIds = {}, pollingIntervalMs = Num 2000, pollingIntervalRef = None \<rparr>"

text \<open>
  \<open>toggleLogExpanded\<close>: the updater passed to \<open>setExpandedLogIds\<close> copies the previous set,
  deletes the index if the copy has it and adds it otherwise, and returns the copy.
\<close>

definition toggleLogExpandedSet :: "int \<Rightarrow> int set \<Rightarrow> int set" where
  "toggleLogExpandedSet index prev =
     (let next = prev in if index \<in> next then next - {index} else insert index next)"

definition toggleLogExpanded :: "int \<Rightarrow> PageState \<Rightarrow> PageState" where
  "toggleLogExpanded index st =
     st\<lparr>expandedLogIds := toggleLogExpandedSet index (expandedLogIds st)\<rparr>"

section \<open>Handlers of the MeetingDetail page\<close>

text \<open>
  The answer to a request: \<open>Inr data\<close> is \<open>response.data\<close> of a fulfilled request,
  \<open>Inl detail\<close> is a rejected one (the \<open>catch\<close> branch) with
  \<open>error.response?.data?.detail\<close>, if any. An \<open>async\<close> handler that awaits one request
  is a function of that answer; \<open>handleRegenerate\<close>, during which the interval timer
  fires, is split at its \<open>await\<close>.
\<close>

type_synonym 'a response = "string option + 'a"

definition fetchMeeting :: "bool \<Rightarrow> Meeting response \<Rightarrow> PageState \<Rightarrow> PageState" where
  "fetchMeeting silent resp st =
     (let st1 =
        (case resp of
           Inr data \<Rightarrow>
             (let s1 = st\<lparr>meeting := Some data,
                           followUps := obj_or (follow_ups data) [],
                           meetingFiles := obj_or (attached_files data) []\<rparr>
              in if \<not> silent then s1\<lparr>selectedVersion := None\<rparr> else s1)
         | Inl err \<Rightarrow> st)
      in if \<not> silent then st1\<lparr>loading := False\<rparr> else st1)"

definition startPolling :: "PageState \<Rightarrow> PageState" where
  "startPolling st =
     (if pollingIntervalRef st \<noteq> None then st
      else st\<lparr>pollingIntervalRef := Some (timerDelay (pollingIntervalMs st))\<rparr>)"

definition stopPolling :: "PageState \<Rightarrow> PageState" where
  "stopPolling st =
     (if pollingIntervalRef st \<noteq> None then st\<lparr>pollingIntervalRef := None\<rparr> else st)"

text \<open>One firing of the interval callback installed by \<open>startPolling\<close>.\<close>

definition pollTick :: "Meeting response \<Rightarrow> PageState \<Rightarrow> PageState" where
  "pollTick resp st =
     (let st1 = fetchMeeting True resp st in
      case resp of
        Inr data \<Rightarrow>
          if status data = completed then (stopPolling st1)\<lparr>regenerating := False\<rparr> else st1
      | Inl err \<Rightarrow> st1)"

text \<open>The admin settings are a \<open>Record<string, string>\<close>.\<close>

type_synonym Settings = "string \<rightharpoonup> string"

definition fetchSettings :: "User option \<Rightarrow> Settings response \<Rightarrow> PageState \<Rightarrow> PageState" where
  "fetchSettings user resp st =
     (if \<not> userIsAdmin user then st
      else case resp of
        Inl err \<Rightarrow> st
      | Inr data \<Rightarrow>
          (case data ''polling_interval'' of
             None \<Rightarrow> st
           | Some p \<Rightarrow>
               if p = [] then st
               else (case parseInt p of
                       None \<Rightarrow> st
                     | Some mathInt \<Rightarrow>
                         (let interval = numberOfInt mathInt in
                          if numGe interval 500 then st\<lparr>pollingIntervalMs := interval\<rparr>
                          else st))))"

text \<open>
  The two numbers of the confirmation prompt of \<open>handleRegenerate\<close>:
  \<open>meeting?.current_version || 1\<close> and \<open>(meeting?.opinion_history?.length || 0) + 1\<close>.
\<close>

definition savedAsVersion :: "Meeting option \<Rightarrow> int" where
  "savedAsVersion m = num_or (Option.bind m current_version) 1"

definition historyCount :: "Meeting option \<Rightarrow> int" where
  "historyCount m =
     num_or (map_option (\<lambda>h. int (length h)) (Option.bind m opinion_history)) 0 + 1"

text \<open>\<open>handleRegenerate\<close> up to its \<open>await\<close>; \<open>confirmed\<close> is the answer to \<open>confirm\<close>.\<close>

definition handleRegenerate_begin :: "bool \<Rightarrow> PageState \<Rightarrow> PageState" where
  "handleRegenerate_begin confirmed st =
     (if \<not> confirmed then st
      else startPolling (st\<lparr>regenerating := True, selectedVersion := None\<rparr>))"

text \<open>
  \<open>handleRegenerate\<close> from the answer of the \<open>regenerate\<close> request on. In the \<open>catch\<close>
  branch \<open>fetchMeeting(true)\<close> is started and not awaited: its answer \<open>refresh\<close> is handled
  after the \<open>finally\<close> block.
\<close>

definition handleRegenerate_end ::
  "Meeting response \<Rightarrow> Meeting response \<Rightarrow> PageState \<Rightarrow> PageState" where
  "handleRegenerate_end resp refresh st =
     (case resp of
        Inr data \<Rightarrow>
          (stopPolling st)\<lparr>meeting := Some data,
                           followUps := obj_or (follow_ups data) [],
                           regenerating := False\<rparr>
      | Inl err \<Rightarrow> fetchMeeting True refresh ((stopPolling st)\<lparr>regenerating := False\<rparr>))"

definition handleRestoreVersion ::
  "int \<Rightarrow> bool \<Rightarrow> Meeting response \<Rightarrow> PageState \<Rightarrow> PageState" where
  "handleRestoreVersion version confirmed resp st =
     (if \<not> confirmed then st
      else
        (let st1 = st\<lparr>restoringVersion := True\<rparr>;
             st2 = (case resp of
                      Inr data \<Rightarrow>
                        st1\<lparr>meeting := Some data,
                            followUps := obj_or (follow_ups data) [],
                            selectedVersion := None,
                            showVersionHistory := False\<rparr>
                    | Inl err \<Rightarrow> st1)
         in st2\<lparr>restoringVersion := False\<rparr>))"

definition handleFollowUpSubmit :: "FollowUpQuestion response \<Rightarrow> PageState \<Rightarrow> PageState" where
  "handleFollowUpSubmit resp st =
     (if trim (followUpQuestion st) = [] then st
      else
        (let st1 = st\<lparr>submittingFollowUp := True\<rparr>;
             st2 = (case resp of
                      Inr data \<Rightarrow>
                        st1\<lparr>followUps := followUps st1 @ [data],
                            followUpQuestion := [],
                            showFollowUp := False\<rparr>
                    | Inl err \<Rightarrow> st1)
         in st2\<lparr>submittingFollowUp := False\<rparr>))"

text \<open>\<open>fileChosen\<close> says whether \<open>e.target.files?.[0]\<close> is a file.\<close>

definition handleFileUpload :: "bool \<Rightarrow> MeetingFile response \<Rightarrow> PageState \<Rightarrow> PageState" where
  "handleFileUpload fileChosen resp st =
     (if \<not> fileChosen then st
      else
        (let st1 = st\<lparr>uploadingFile := True\<rparr>;
             st2 = (case resp of
                      Inr data \<Rightarrow> st1\<lparr>meetingFiles := meetingFiles st1 @ [data]\<rparr>
                    | Inl err \<Rightarrow> st1)
         in st2\<lparr>uploadingFile := False\<rparr>))"

definition handleRemoveFile :: "string \<Rightarrow> unit response \<Rightarrow> PageState \<Rightarrow> PageState" where
  "handleRemoveFile fileId resp st =
     (case resp of
        Inr ok \<Rightarrow> st\<lparr>meetingFiles := filter (\<lambda>f. file_id f \<noteq> fileId) (meetingFiles st)\<rparr>
      | Inl err \<Rightarrow> st)"

section \<open>What the page displays\<close>

definition displayOpinions :: "PageState \<Rightarrow> AgentOpinion list" where
  "displayOpinions st =
     obj_or (map_option ov_opinions (selectedVersion st))
       (obj_or (map_option opinions (meeting st)) [])"

definition displayChairSummary :: "PageState \<Rightarrow> string" where
  "displayChairSummary st =
     str_or (map_option ov_chair_summary (selectedVersion st))
       (str_or (map_option chair_summary (meeting st)) [])"

definition displayChairRecommendation :: "PageState \<Rightarrow> string" where
  "displayChairRecommendation st =
     str_or (map_option ov_chair_recommendation (selectedVersion st))
       (str_or (map_option chair_recommendation (meeting st)) [])"

definition displayFollowUps :: "PageState \<Rightarrow> FollowUpQuestion list" where
  "displayFollowUps st = obj_or (Option.bind (selectedVersion st) ov_follow_ups) (followUps st)"

definition debugLogs :: "PageState \<Rightarrow> DebugLog list" where
  "debugLogs st = obj_or (Option.bind (meeting st) debug_logs) []"

definition hasErrors :: "PageState \<Rightarrow> bool" where
  "hasErrors st = list_ex (\<lambda>log. level log = ''error'') (debugLogs st)"

definition hasWarnings :: "PageState \<Rightarrow> bool" where
  "hasWarnings st = list_ex (\<lambda>log. level log = ''warning'') (debugLogs st)"

text \<open>
  The page proper is rendered once loading is over and a meeting is there; before that the
  component returns a placeholder. Each control below is the condition of its JSX block.
\<close>

definition pageShown :: "PageState \<Rightarrow> bool" where
  "pageShown st = (\<not> loading st \<and> meeting st \<noteq> None)"

definition meetingStatusIs :: "MeetingStatus \<Rightarrow> PageState \<Rightarrow> bool" where
  "meetingStatusIs s st = (case meeting st of None \<Rightarrow> False | Some m \<Rightarrow> status m = s)"

definition hasHistory :: "Meeting \<Rightarrow> bool" where
  "hasHistory m = (num_or (map_option (\<lambda>h. int (length h)) (opinion_history m)) 0 > 0)"

definition historyControlShown :: "User option \<Rightarrow> PageState \<Rightarrow> bool" where
  "historyControlShown user st =
     (pageShown st \<and> (case meeting st of None \<Rightarrow> False | Some m \<Rightarrow> hasHistory m)
      \<and> userIsAdmin user)"

text \<open>The number in the label \<open>History (n)\<close>.\<close>

definition historyLabelCount :: "Meeting \<Rightarrow> int" where
  "historyLabelCount m = num_or (map_option (\<lambda>h. int (length h)) (opinion_history m)) 0 + 1"

definition regenerateOffered :: "User option \<Rightarrow> PageState \<Rightarrow> bool" where
  "regenerateOffered user st =
     (pageShown st \<and> userIsAdmin user \<and> meetingStatusIs completed st)"

definition chairCardShown :: "PageState \<Rightarrow> bool" where
  "chairCardShown st = (pageShown st \<and> meetingStatusIs completed st)"

definition askFollowUpOffered :: "PageState \<Rightarrow> bool" where
  "askFollowUpOffered st =
     (pageShown st \<and> meetingStatusIs completed st \<and> selectedVersion st = None)"

text \<open>The form whose submission runs \<open>handleFollowUpSubmit\<close>.\<close>

definition followUpFormShown :: "PageState \<Rightarrow> bool" where
  "followUpFormShown st = (pageShown st \<and> showFollowUp st \<and> selectedVersion st = None)"

definition debugPanelShown :: "User option \<Rightarrow> PageState \<Rightarrow> bool" where
  "debugPanelShown user st = (pageShown st \<and> userIsAdmin user \<and> length (debugLogs st) > 0)"

text \<open>
  The opinion cards: \<open>displayOpinions.map((opinion, index) => <OpinionCard .../>)\<close>, with
  key \<open>opinion.agent_id + '-' + index\<close>.
\<close>

record OpinionCardProps =
  card_key :: string
  card_opinion :: AgentOpinion
  card_index :: nat

definition opinionCards :: "PageState \<Rightarrow> OpinionCardProps list" where
  "opinionCards st =
     map (\<lambda>(index, opinion).
            \<lparr>card_key = agent_id opinion @ ''-'' @ natToString index,
             card_opinion = opinion, card_index = index\<rparr>)
         (enumerate 0 (displayOpinions st))"

text \<open>The follow-up entries: \<open>displayFollowUps.map(...)\<close>, one per element with key \<open>id\<close>.\<close>

definition followUpEntries :: "PageState \<Rightarrow> (string \<times> FollowUpQuestion) list" where
  "followUpEntries st = map (\<lambda>followUp. (fu_id followUp, followUp)) (displayFollowUps st)"

section \<open>The page as a transition system\<close>

text \<open>
  Everything that changes the state of the page: the answers to its requests, a firing of
  the interval timer, the direct \<open>set...\<close> calls of its controls, and the cleanup of the
  effect on unmount.
\<close>

datatype event =
    EvFetchMeeting bool "Meeting response"
  | EvFetchSettings "Settings response"
  | EvRegenerateBegin bool
  | EvPollTick "Meeting response"
  | EvRegenerateEnd "Meeting response" "Meeting response"
  | EvRestoreVersion int bool "Meeting response"
  | EvFollowUpSubmit "FollowUpQuestion response"
  | EvFileUpload bool "MeetingFile response"
  | EvRemoveFile string "unit response"
  | EvSetShowFollowUp bool
  | EvSetFollowUpQuestion string
  | EvSetShowVersionHistory bool
  | EvSetSelectedVersion "OpinionVersion option"
  | EvSetShowDebugLogs bool
  | EvToggleLogExpanded int
  | EvUnmount

fun dispatch :: "User option \<Rightarrow> PageState \<Rightarrow> event \<Rightarrow> PageState" where
  "dispatch user st (EvFetchMeeting silent resp) = fetchMeeting silent resp st"
| "dispatch user st (EvFetchSettings resp) = fetchSettings user resp st"
| "dispatch user st (EvRegenerateBegin confirmed) = handleRegenerate_begin confirmed st"
| "dispatch user st (EvPollTick resp) = pollTick resp st"
| "dispatch user st (EvRegenerateEnd resp refresh) = handleRegenerate_end resp refresh st"
| "dispatch user st (EvRestoreVersion v confirmed resp) = handleRestoreVersion v confirmed resp st"
| "dispatch user st (EvFollowUpSubmit resp) = handleFollowUpSubmit resp st"
| "dispatch user st (EvFileUpload fileChosen resp) = handleFileUpload fileChosen resp st"
| "dispatch user st (EvRemoveFile fileId resp) = handleRemoveFile fileId resp st"
| "dispatch user st (EvSetShowFollowUp b) = st\<lparr>showFollowUp := b\<rparr>"
| "dispatch user st (EvSetFollowUpQuestion q) = st\<lparr>followUpQuestion := q\<rparr>"
| "dispatch user st (EvSetShowVersionHistory b) = st\<lparr>showVersionHistory := b\<rparr>"
| "dispatch user st (EvSetSelectedVersion v) = st\<lparr>selectedVersion := v\<rparr>"
| "dispatch user st (EvSetShowDebugLogs b) = st\<lparr>showDebugLogs := b\<rparr>"
| "dispatch user st (EvToggleLogExpanded i) = toggleLogExpanded i st"
| "dispatch user st EvUnmount = stopPolling st"

definition run :: "User option \<Rightarrow> event list \<Rightarrow> PageState \<Rightarrow> PageState" where
  "run user evs st = foldl (dispatch user) st evs"

section \<open>Example data\<close>

definition exWeights :: AgentWeights where
  "exWeights = \<lparr>finance = 1, technology = 0, operations = 0, people_hr = 0, logistics = 0\<rparr>"

definition exOpinionCFO :: AgentOpinion where
  "exOpinionCFO =
     \<lparr>agent_id = ''cfo'', agent_name = ''Ada'', agent_role = ''CFO'', opinion = ''Hold'',
      reasoning = ''Cash'', confidence = 1 / 2, weights_applied = exWeights,
      timestamp = ''2025-01-01T10:00:09Z''\<rparr>"

definition exOpinionCTO :: AgentOpinion where
  "exOpinionCTO =
     \<lparr>agent_id = ''cto'', agent_name = ''Bob'', agent_role = ''CTO'', opinion = ''Build'',
      reasoning = ''Stack'', confidence = 1, weights_applied = exWeights,
      timestamp = ''2025-01-01T10:00:02Z''\<rparr>"

definition exFollowUpV1 :: FollowUpQuestion where
  "exFollowUpV1 =
     \<lparr>fu_id = ''f1'', question = ''Why?'', chair_response = Some ''Because.'',
      created_at = ''2025-01-01T11:00:00Z'', fu_version = Some 1\<rparr>"

definition exFollowUpV3 :: FollowUpQuestion where
  "exFollowUpV3 =
     \<lparr>fu_id = ''f3'', question = ''When?'', chair_response = Some ''Soon.'',
      created_at = ''2025-01-03T11:00:00Z'', fu_version = Some 3\<rparr>"

text \<open>A snapshot that carries its follow-up list, and one that carries none.\<close>

definition exVersion1 :: OpinionVersion where
  "exVersion1 =
     \<lparr>ov_version = 1, ov_opinions = [exOpinionCFO, exOpinionCTO],
      ov_chair_summary = ''Summary one'', ov_chair_recommendation = ''Wait'',
      ov_follow_ups = Some [exFollowUpV1], generated_at = ''2025-01-01T10:01:00Z'',
      generated_by = Some 7\<rparr>"

definition exVersion2 :: OpinionVersion where
  "exVersion2 =
     \<lparr>ov_version = 2, ov_opinions = [exOpinionCTO],
      ov_chair_summary = ''Summary two'', ov_chair_recommendation = ''Go'',
      ov_follow_ups = None, generated_at = ''2025-01-02T10:01:00Z'',
      generated_by = None\<rparr>"

definition exMeeting :: Meeting where
  "exMeeting =
     \<lparr>meeting_id = ''m1'', user_id = 7, m_question = ''Expand?'', m_context = None,
      opinions = [exOpinionCTO, exOpinionCFO], chair_summary = ''Summary three'',
      chair_recommendation = ''Expand'', status = completed,
      m_created_at = ''2025-01-01T10:00:00Z'', completed_at = Some ''2025-01-03T10:01:00Z'',
      follow_ups = Some [exFollowUpV1, exFollowUpV3], attached_files = None,
      current_version = Some 3, opinion_history = Some [exVersion1, exVersion2],
      debug_logs = None\<rparr>"

definition exAdmin :: User where
  "exAdmin = \<lparr>is_admin = True\<rparr>"

text \<open>The page after it has loaded \<open>exMeeting\<close>.\<close>

definition exLoaded :: PageState where
  "exLoaded = fetchMeeting False (Inr exMeeting) initialState"

text \<open>
  A follow-up question is stamped with the version of the meeting at which it was asked;
  \<open>askedAfter v f\<close> says that \<open>f\<close> was asked at a version later than the snapshot \<open>v\<close>.
\<close>

definition askedAfter :: "OpinionVersion \<Rightarrow> FollowUpQuestion \<Rightarrow> bool" where
  "askedAfter v f = (case fu_version f of None \<Rightarrow> False | Some n \<Rightarrow> n > ov_version v)"

text \<open>The page previewing a snapshot of the history of \<open>exMeeting\<close>.\<close>

definition exPreview :: "OpinionVersion \<Rightarrow> PageState" where
  "exPreview v =
     run (Some exAdmin)
       [EvFetchMeeting False (Inr exMeeting), EvSetSelectedVersion (Some v)] initialState"

text \<open>The configured interval \<open>pollingIntervalMs\<close>, as a Number, is at least 500.\<close>

definition pollingAtLeast500 :: "PageState \<Rightarrow> bool" where
  "pollingAtLeast500 st = numGe (pollingIntervalMs st) 500"

definition isFetchSettings :: "event \<Rightarrow> bool" where
  "isFetchSettings ev = (case ev of EvFetchSettings resp \<Rightarrow> True | _ \<Rightarrow> False)"

text \<open>The page with the follow-up form open and a question typed.\<close>

definition exAsking :: PageState where
  "exAsking =
     run (Some exAdmin)
       [EvFetchMeeting False (Inr exMeeting), EvSetShowFollowUp True,
        EvSetFollowUpQuestion ''And then?''] initialState"

text \<open>Settings answers with a polling interval below and above the lower bound.\<close>

definition exSettings :: "string \<Rightarrow> Settings" where
  "exSettings p = [''polling_interval'' \<mapsto> p]"

text \<open>
  An admin opens the completed example meeting, the settings answer with the given polling
  interval, and Regenerate is confirmed.
\<close>

definition exRegenerateWith :: "string \<Rightarrow> PageState" where
  "exRegenerateWith p =
     run (Some exAdmin)
       [EvFetchMeeting False (Inr exMeeting),
        EvFetchSettings (Inr (exSettings p)),
        EvRegenerateBegin True] initialState"


text \<open>
  The page while a regeneration runs: the follow-up form was opened on the completed
  meeting, then \<open>Regenerate\<close> was confirmed and a poll brought the meeting back as
  \<open>in_progress\<close>.
\<close>

definition exRegenerating :: PageState where
  "exRegenerating =
     run (Some exAdmin)
       [EvFetchMeeting False (Inr exMeeting), EvSetShowFollowUp True,
        EvSetFollowUpQuestion ''And then?'', EvRegenerateBegin True,
        EvPollTick (Inr (exMeeting\<lparr>status := in_progress\<rparr>))] initialState"

section \<open>Arrays in a store\<close>

text \<open>
  \<open>Array.prototype.reverse\<close> reverses its array in place, so what it does to the stored
  log list depends on which array it is called on. Arrays live in a store, a list of
  cells addressed by position; a new array is a new last cell. \<open>[...a]\<close> copies the elements
  of \<open>a\<close> into a new array; \<open>a.reverse()\<close> overwrites \<open>a\<close> and returns \<open>a\<close> itself.
\<close>

type_synonym 'a store = "'a list list"

definition spreadArray :: "'a store \<Rightarrow> nat \<Rightarrow> nat \<times> 'a store" where
  "spreadArray h a = (length h, h @ [h ! a])"

definition reverseArray :: "'a store \<Rightarrow> nat \<Rightarrow> nat \<times> 'a store" where
  "reverseArray h a = (a, h[a := rev (h ! a)])"

text \<open>
  One row of the debug-log panel: its key (the index in the rendered list), the entry,
  whether \<open>log.details\<close> is truthy (the row is then clickable), and whether the details are
  shown (\<open>log.details && expandedLogIds.has(index)\<close>). The details payload is kept as its
  text: it is truthy when it is present and not the empty string.
\<close>

definition detailsTruthy :: "DebugLog \<Rightarrow> bool" where
  "detailsTruthy entry = (case details entry of None \<Rightarrow> False | Some d \<Rightarrow> d \<noteq> [])"

record DebugLogRow =
  row_key :: nat
  row_log :: DebugLog
  row_hasDetails :: bool
  row_expanded :: bool

text \<open>
  \<open>[...debugLogs].reverse().map((log, index) => ...)\<close> on the array \<open>debugLogs\<close> at address
  \<open>a\<close>; the result is the rows and the store afterwards.
\<close>

definition debugLogRows :: "int set \<Rightarrow> DebugLog store \<Rightarrow> nat \<Rightarrow> DebugLogRow list \<times> DebugLog store" where
  "debugLogRows expanded h a =
     (let (c, h1) = spreadArray h a;
          (r, h2) = reverseArray h1 c
      in (map (\<lambda>(index, log).
                 \<lparr>row_key = index, row_log = log, row_hasDetails = detailsTruthy log,
                  row_expanded = (detailsTruthy log \<and> int index \<in> expanded)\<rparr>)
              (enumerate 0 (h2 ! r)),
          h2))"

text \<open>
  The list of the panel when it is open, for an admin and a non-empty log; the store holds
  the array \<open>debugLogs\<close> at address 0.
\<close>

definition renderedDebugLogs ::
  "User option \<Rightarrow> PageState \<Rightarrow> (DebugLogRow list \<times> DebugLog store) option" where
  "renderedDebugLogs user st =
     (if debugPanelShown user st \<and> showDebugLogs st
      then Some (debugLogRows (expandedLogIds st) [debugLogs st] 0) else None)"

definition exLogInfo :: DebugLog where
  "exLogInfo = \<lparr>level = ''info'', log_agent_name = ''system'', message = ''started'',
                details = None, log_timestamp = ''2025-01-01T10:00:00Z''\<rparr>"

definition exLogError :: DebugLog where
  "exLogError = \<lparr>level = ''error'', log_agent_name = ''cfo'', message = ''timeout'',
                 details = Some ''{}'', log_timestamp = ''2025-01-01T10:00:30Z''\<rparr>"

definition exLogged :: PageState where
  "exLogged =
     run (Some exAdmin)
       [EvFetchMeeting False (Inr (exMeeting\<lparr>debug_logs := Some [exLogInfo, exLogError]\<rparr>)),
        EvSetShowDebugLogs True] initialState"

section \<open>The token limits form of the admin settings page\<close>

text \<open>
  What \<open>handleSaveTokenLimits\<close> does, in order: toasts, the \<open>PUT\<close> of the settings with its
  payload, the busy flag, and the reload of the settings.
\<close>

datatype adminEffect =
    ToastError string
  | ToastSuccess string
  | SetSavingTokenLimits bool
  | PutSettings "(string \<times> string) list"
  | FetchSettings

definition handleSaveTokenLimits :: "string \<Rightarrow> string \<Rightarrow> unit response \<Rightarrow> adminEffect list" where
  "handleSaveTokenLimits agentMaxTokens chairMaxTokens resp =
     (case parseInt agentMaxTokens of
        None \<Rightarrow> [ToastError ''Agent max tokens must be between 500 and 16000'']
      | Some agentTokens \<Rightarrow>
          if agentTokens < 500 \<or> agentTokens > 16000
          then [ToastError ''Agent max tokens must be between 500 and 16000'']
          else
            (case parseInt chairMaxTokens of
               None \<Rightarrow> [ToastError ''Chair max tokens must be between 500 and 16000'']
             | Some chairTokens \<Rightarrow>
                 if chairTokens < 500 \<or> chairTokens > 16000
                 then [ToastError ''Chair max tokens must be between 500 and 16000'']
                 else
                   [SetSavingTokenLimits True,
                    PutSettings [(''agent_max_tokens'', numberToString agentTokens),
                                 (''chair_max_tokens'', numberToString chairTokens)]]
                   @ (case resp of
                        Inr ok \<Rightarrow> [ToastSuccess ''Token limits saved successfully'', FetchSettings]
                      | Inl detail \<Rightarrow> [ToastError (str_or detail ''Failed to save token limits'')])
                   @ [SetSavingTokenLimits False]))"

definition isPutSettings :: "adminEffect \<Rightarrow> bool" where
  "isPutSettings e = (case e of PutSettings payload \<Rightarrow> True | _ \<Rightarrow> False)"

definition issuesRequest :: "adminEffect list \<Rightarrow> bool" where
  "issuesRequest effects = list_ex isPutSettings effects"

text \<open>An input of the form parses to a number in the range from 500 to 16000.\<close>

definition parsesInRange :: "string \<Rightarrow> bool" where
  "parsesInRange s = (case parseInt s of None \<Rightarrow> False | Some n \<Rightarrow> 500 \<le> n \<and> n \<le> 16000)"

section \<open>The Version Manager of the backend\<close>

text \<open>
  The backend is not among the sources: the page only receives its meetings. Its version
  bookkeeping is modelled here from sections 3, 4.4 and 4.5 of the specification.
\<close>

text \<open>
  Modelled from the spec: the backend's \<open>Meeting\<close> aggregate (section 3), with the fields the
  Version Manager reads and writes; every field is always present.
\<close>

record VMeeting =
  v_question :: string
  v_context :: "string option"
  v_opinions :: "AgentOpinion list"
  v_chair_summary :: string
  v_chair_recommendation :: string
  v_status :: MeetingStatus
  v_current_version :: int
  v_opinion_history :: "OpinionVersion list"
  v_follow_ups :: "FollowUpQuestion list"
  v_completed_at :: string

text \<open>
  Modelled from the spec: what one generation cycle of the backend (fan-out 4.2, then chair
  synthesis 4.3) hands to the Version Manager: the successful opinions in hire order, the
  chair's summary and recommendation, and the time. \<open>gen_follow_ups\<close> is the follow-up list
  of the new current state; the specification leaves open what a regeneration does with
  the follow-ups.
\<close>

record Generation =
  gen_opinions :: "AgentOpinion list"
  gen_chair_summary :: string
  gen_chair_recommendation :: string
  gen_follow_ups :: "FollowUpQuestion list"
  gen_time :: string

text \<open>
  Modelled from the spec: a generation of the backend succeeds when at least one agent
  opinion and a non-empty chair summary and recommendation exist (sections 4.2, 4.3, 8).
\<close>

definition generationOk :: "Generation \<Rightarrow> bool" where
  "generationOk g =
     (gen_opinions g \<noteq> [] \<and> gen_chair_summary g \<noteq> [] \<and> gen_chair_recommendation g \<noteq> [])"

text \<open>
  Modelled from the spec: the failures of the backend's Version Manager (section 7): a fatal
  generation failure, and a request on a meeting not in the expected status or for a
  version that does not exist.
\<close>

datatype vmError = GenerationFailed | StateConflict

text \<open>
  Modelled from the spec: the backend's \<open>create\<close> (section 4.4): on success the meeting is
  \<open>completed\<close> with version 1 and an empty history.
\<close>

definition created :: "string \<Rightarrow> string option \<Rightarrow> Generation \<Rightarrow> VMeeting" where
  "created q c g =
     \<lparr>v_question = q, v_context = c, v_opinions = gen_opinions g,
      v_chair_summary = gen_chair_summary g,
      v_chair_recommendation = gen_chair_recommendation g, v_status = completed,
      v_current_version = 1, v_opinion_history = [], v_follow_ups = [],
      v_completed_at = gen_time g\<rparr>"

definition vm_create :: "string \<Rightarrow> string option \<Rightarrow> Generation option \<Rightarrow> vmError + VMeeting" where
  "vm_create q c outcome =
     (case outcome of
        None \<Rightarrow> Inl GenerationFailed
      | Some g \<Rightarrow> if generationOk g then Inr (created q c g) else Inl GenerationFailed)"

text \<open>
  Modelled from the spec: the backend's archiving of the current state as a new
  \<open>OpinionVersion\<close> (sections 3, 4.4): the current opinions, summary, recommendation and
  follow-ups under the current version number, with who triggered it.
\<close>

definition archive :: "int option \<Rightarrow> VMeeting \<Rightarrow> OpinionVersion" where
  "archive who m =
     \<lparr>ov_version = v_current_version m, ov_opinions = v_opinions m,
      ov_chair_summary = v_chair_summary m,
      ov_chair_recommendation = v_chair_recommendation m,
      ov_follow_ups = Some (v_follow_ups m), generated_at = v_completed_at m,
      generated_by = who\<rparr>"

text \<open>
  Modelled from the spec: the backend's \<open>regenerate\<close> (section 4.4), only from \<open>completed\<close>:
  the current state is appended to the history, the new generation becomes the current
  state and \<open>current_version\<close> is incremented; a failed generation leaves the meeting as it
  was.
\<close>

definition regenerated :: "int option \<Rightarrow> Generation \<Rightarrow> VMeeting \<Rightarrow> VMeeting" where
  "regenerated who g m =
     m\<lparr>v_opinion_history := v_opinion_history m @ [archive who m],
       v_opinions := gen_opinions g,
       v_chair_summary := gen_chair_summary g,
       v_chair_recommendation := gen_chair_recommendation g,
       v_follow_ups := gen_follow_ups g,
       v_current_version := v_current_version m + 1,
       v_status := completed,
       v_completed_at := gen_time g\<rparr>"

definition vm_regenerate :: "int option \<Rightarrow> Generation option \<Rightarrow> VMeeting \<Rightarrow> vmError + VMeeting" where
  "vm_regenerate who outcome m =
     (if v_status m \<noteq> completed then Inl StateConflict
      else case outcome of
        None \<Rightarrow> Inl GenerationFailed
      | Some g \<Rightarrow> if generationOk g then Inr (regenerated who g m) else Inl GenerationFailed)"

text \<open>
  Modelled from the spec: the backend's \<open>restore(v)\<close> (section 4.4): the current state is
  appended to the history, the content of version \<open>v\<close> becomes the current state and
  \<open>current_version\<close> is incremented; no history entry is deleted or renumbered. A version
  that does not exist, or a meeting that is not \<open>completed\<close>, is a state conflict.
\<close>

definition restored :: "int option \<Rightarrow> OpinionVersion \<Rightarrow> VMeeting \<Rightarrow> VMeeting" where
  "restored who ov m =
     m\<lparr>v_opinion_history := v_opinion_history m @ [archive who m],
       v_opinions := ov_opinions ov,
       v_chair_summary := ov_chair_summary ov,
       v_chair_recommendation := ov_chair_recommendation ov,
       v_follow_ups := obj_or (ov_follow_ups ov) [],
       v_current_version := v_current_version m + 1\<rparr>"

definition vm_restore :: "int option \<Rightarrow> int \<Rightarrow> VMeeting \<Rightarrow> vmError + VMeeting" where
  "vm_restore who v m =
     (if v_status m \<noteq> completed then Inl StateConflict
      else case find (\<lambda>ov. ov_version ov = v) (v_opinion_history m) of
        None \<Rightarrow> Inl StateConflict
      | Some ov \<Rightarrow> Inr (restored who ov m))"

text \<open>
  Modelled from the spec: the backend's follow-up (section 4.5), only on a \<open>completed\<close>
  meeting: one follow-up question, stamped with the current version, is appended to the
  follow-up list of the current state; no version is created.
\<close>

definition vm_follow_up :: "FollowUpQuestion \<Rightarrow> VMeeting \<Rightarrow> vmError + VMeeting" where
  "vm_follow_up f m =
     (if v_status m \<noteq> completed then Inl StateConflict
      else Inr (m\<lparr>v_follow_ups :=
                    v_follow_ups m @ [f\<lparr>fu_version := Some (v_current_version m)\<rparr>]\<rparr>))"

text \<open>
  Modelled from the spec: the meetings the backend can hold, those produced by a successful
  \<open>create\<close> followed by successful regenerations, restores and follow-ups.
\<close>

inductive vm_reachable :: "VMeeting \<Rightarrow> bool" where
  reach_create: "vm_create q c outcome = Inr m \<Longrightarrow> vm_reachable m"
| reach_regenerate: "vm_reachable m \<Longrightarrow> vm_regenerate who outcome m = Inr m' \<Longrightarrow> vm_reachable m'"
| reach_restore: "vm_reachable m \<Longrightarrow> vm_restore who v m = Inr m' \<Longrightarrow> vm_reachable m'"
| reach_follow_up: "vm_reachable m \<Longrightarrow> vm_follow_up f m = Inr m' \<Longrightarrow> vm_reachable m'"

text \<open>
  Modelled from the spec: the meeting \<open>m\<close> that the page receives shows the backend meeting
  \<open>b\<close>: it carries its version number and its history (an absent \<open>opinion_history\<close> stands
  for the empty one).
\<close>

definition clientView :: "VMeeting \<Rightarrow> Meeting \<Rightarrow> bool" where
  "clientView b m =
     (current_version m = Some (v_current_version b)
      \<and> obj_or (opinion_history m) [] = v_opinion_history b)"

text \<open>Scenarios D and E of the specification: create, regenerate, then restore version 1.\<close>

definition exGeneration :: Generation where
  "exGeneration =
     \<lparr>gen_opinions = [exOpinionCFO, exOpinionCTO], gen_chair_summary = ''Summary'',
      gen_chair_recommendation = ''Go'', gen_follow_ups = [],
      gen_time = ''2025-01-01T10:01:00Z''\<rparr>"

definition exBackend1 :: VMeeting where
  "exBackend1 = created ''Expand?'' None exGeneration"

definition exBackend2 :: VMeeting where
  "exBackend2 = regenerated (Some 7) exGeneration exBackend1"

definition exBackend3 :: VMeeting where
  "exBackend3 = restored (Some 7) (archive (Some 7) exBackend1) exBackend2"

definition exClient3 :: Meeting where
  "exClient3 =
     exMeeting\<lparr>current_version := Some 3,
               opinion_history := Some [archive (Some 7) exBackend1, archive (Some 7) exBackend2]\<rparr>"

section \<open>Verified properties\<close>

subsection \<open>Expanding and collapsing a log entry\<close>

text \<open>
  Claim C10. \<open>toggleLogExpanded\<close> is an involution that is local to its argument: for
  every set of expanded log indices and every index \<open>i\<close>, toggling \<open>i\<close> twice gives the
  original set back, one toggle flips the membership of \<open>i\<close>, and the membership of every
  other index is left as it was. On the page state it touches \<open>expandedLogIds\<close> only.
\<close>

theorem toggleLogExpanded_involution_local:
  "toggleLogExpandedSet i (toggleLogExpandedSet i S) = S
   \<and> (i \<in> toggleLogExpandedSet i S) = (i \<notin> S)
   \<and> (\<forall>j. j \<noteq> i \<longrightarrow> (j \<in> toggleLogExpandedSet i S) = (j \<in> S))
   \<and> toggleLogExpanded i (toggleLogExpanded i st) = st
   \<and> toggleLogExpanded i st = st\<lparr>expandedLogIds := toggleLogExpandedSet i (expandedLogIds st)\<rparr>"
proof -
  have twice: "toggleLogExpandedSet i (toggleLogExpandedSet i T) = T" for T
    by (auto simp: toggleLogExpandedSet_def)
  have flip: "(i \<in> toggleLogExpandedSet i S) = (i \<notin> S)"
    by (simp add: toggleLogExpandedSet_def)
  have others: "\<forall>j. j \<noteq> i \<longrightarrow> (j \<in> toggleLogExpandedSet i S) = (j \<in> S)"
    by (simp add: toggleLogExpandedSet_def)
  have state: "toggleLogExpanded i (toggleLogExpanded i st) = st"
    by (simp add: toggleLogExpanded_def twice)
  show ?thesis
    using twice flip others state by (simp add: toggleLogExpanded_def)
qed

theorem toggleLogExpanded_involution_local_witness:
  "toggleLogExpandedSet 3 (toggleLogExpandedSet 3 {1, 3}) = {1, 3}
   \<and> (3 \<in> toggleLogExpandedSet 3 {1, 3}) = (3 \<notin> {1, 3::int})
   \<and> (1::int) \<noteq> 3 \<and> (1 \<in> toggleLogExpandedSet 3 {1, 3}) = (1 \<in> {1, 3::int})
   \<and> toggleLogExpanded 3 (toggleLogExpanded 3 initialState) = initialState"
proof -
  have ne: "(1::int) \<noteq> 3" by simp
  from toggleLogExpanded_involution_local [of 3 "{1, 3}" initialState] ne
  show ?thesis by blast
qed

subsection \<open>Order of the opinion cards\<close>

lemma opinionCards_opinions: "map card_opinion (opinionCards st) = displayOpinions st"
proof -
  have "card_opinion \<circ> (\<lambda>(index, opinion).
            \<lparr>card_key = agent_id opinion @ ''-'' @ natToString index,
             card_opinion = opinion, card_index = index\<rparr>) = snd"
    by (auto simp: fun_eq_iff)
  then show ?thesis
    by (simp add: opinionCards_def)
qed

lemma opinionCards_indices: "map card_index (opinionCards st) = [0..<length (displayOpinions st)]"
proof -
  have "card_index \<circ> (\<lambda>(index, opinion).
            \<lparr>card_key = agent_id opinion @ ''-'' @ natToString index,
             card_opinion = opinion, card_index = index\<rparr>) = fst"
    by (auto simp: fun_eq_iff)
  then show ?thesis
    by (simp add: opinionCards_def)
qed

lemma opinionCards_length: "length (opinionCards st) = length (displayOpinions st)"
  by (simp add: opinionCards_def)

text \<open>
  Claim C3. For the current meeting and for every selected historical version, the
  opinions are shown in exactly the order of the stored \<open>opinions\<close> array: the list of
  opinions carried by the rendered cards is the stored list itself (nothing is reordered or
  filtered, whatever the timestamps and confidences are), and the \<open>i\<close>-th card shows the
  \<open>i\<close>-th element with index \<open>i\<close>.
\<close>

theorem opinionCards_order:
  "(selectedVersion st = Some v \<longrightarrow> displayOpinions st = ov_opinions v)
   \<and> (selectedVersion st = None \<and> meeting st = Some m \<longrightarrow> displayOpinions st = opinions m)
   \<and> length (opinionCards st) = length (displayOpinions st)
   \<and> map card_opinion (opinionCards st) = displayOpinions st
   \<and> (\<forall>i < length (displayOpinions st).
         card_opinion (opinionCards st ! i) = displayOpinions st ! i
         \<and> card_index (opinionCards st ! i) = i)"
proof -
  have sel: "selectedVersion st = Some v \<longrightarrow> displayOpinions st = ov_opinions v"
    by (simp add: displayOpinions_def obj_or_def)
  have cur: "selectedVersion st = None \<and> meeting st = Some m \<longrightarrow> displayOpinions st = opinions m"
    by (simp add: displayOpinions_def obj_or_def)
  have nth: "card_opinion (opinionCards st ! i) = displayOpinions st ! i
         \<and> card_index (opinionCards st ! i) = i" if "i < length (displayOpinions st)" for i
  proof -
    from that have i: "i < length (opinionCards st)" by (simp add: opinionCards_length)
    have "card_opinion (opinionCards st ! i) = map card_opinion (opinionCards st) ! i"
      using i by simp
    moreover have "card_index (opinionCards st ! i) = map card_index (opinionCards st) ! i"
      using i by simp
    ultimately show ?thesis
      using that by (simp add: opinionCards_opinions opinionCards_indices)
  qed
  from sel cur nth show ?thesis
    by (simp add: opinionCards_length opinionCards_opinions)
qed

theorem opinionCards_order_witness:
  "selectedVersion (exLoaded\<lparr>selectedVersion := Some exVersion1\<rparr>) = Some exVersion1
   \<and> map card_opinion (opinionCards (exLoaded\<lparr>selectedVersion := Some exVersion1\<rparr>))
       = [exOpinionCFO, exOpinionCTO]
   \<and> confidence exOpinionCFO < confidence exOpinionCTO
   \<and> (1::nat) < length (displayOpinions (exLoaded\<lparr>selectedVersion := Some exVersion1\<rparr>))
   \<and> card_opinion (opinionCards (exLoaded\<lparr>selectedVersion := Some exVersion1\<rparr>) ! 1) = exOpinionCTO"
proof -
  let ?st = "exLoaded\<lparr>selectedVersion := Some exVersion1\<rparr>"
  have sel: "selectedVersion ?st = Some exVersion1" by simp
  have ops: "ov_opinions exVersion1 = [exOpinionCFO, exOpinionCTO]" by (simp add: exVersion1_def)
  have conf: "confidence exOpinionCFO < confidence exOpinionCTO"
    by (simp add: exOpinionCFO_def exOpinionCTO_def)
  from opinionCards_order [of ?st exVersion1 exMeeting] sel ops conf
  show ?thesis by simp
qed

subsection \<open>Previewing a historical version\<close>

lemma exLoaded_eq:
  "exLoaded = initialState\<lparr>meeting := Some exMeeting,
                followUps := [exFollowUpV1, exFollowUpV3], loading := False\<rparr>"
  by (simp add: exLoaded_def fetchMeeting_def initialState_def exMeeting_def obj_or_def)

lemma exPreview_eq: "exPreview v = exLoaded\<lparr>selectedVersion := Some v\<rparr>"
  by (simp add: exPreview_def run_def exLoaded_def)

text \<open>
  What the preview does with the follow-ups: a snapshot that carries a follow-up list
  (possibly empty) is displayed with exactly that list, entry by entry; a snapshot that
  carries none is displayed with the live follow-up list of the page.
\<close>

lemma displayFollowUps_of_snapshot:
  assumes "selectedVersion st = Some v" and "ov_follow_ups v = Some fs"
  shows "displayFollowUps st = fs \<and> map snd (followUpEntries st) = fs"
  using assms by (simp add: displayFollowUps_def followUpEntries_def obj_or_def comp_def)

lemma displayFollowUps_without_list:
  assumes "selectedVersion st = Some v" and "ov_follow_ups v = None"
  shows "displayFollowUps st = followUps st"
  using assms by (simp add: displayFollowUps_def obj_or_def)

text \<open>
  Claim C2, evaluated on the page. The example meeting is at version 3 and has two
  follow-ups, one asked at version 1 and one at version 3. Previewing version 1, whose
  snapshot stores its follow-up list, displays that list only. Version 2 is in the history
  too, and its snapshot has no \<open>follow_ups\<close> field, which the type \<open>OpinionVersion\<close>
  allows: previewing it, \<open>selectedVersion?.follow_ups || followUps\<close> falls through to the
  live list, and the follow-up asked at version 3 is displayed under version 2.
\<close>

theorem displayFollowUps_live_list_under_old_version:
  "historyControlShown (Some exAdmin) exLoaded
   \<and> exVersion1 \<in> set (obj_or (opinion_history exMeeting) [])
   \<and> exVersion2 \<in> set (obj_or (opinion_history exMeeting) [])
   \<and> followUps exLoaded = [exFollowUpV1, exFollowUpV3]
   \<and> selectedVersion (exPreview exVersion1) = Some exVersion1
   \<and> ov_follow_ups exVersion1 = Some [exFollowUpV1]
   \<and> displayFollowUps (exPreview exVersion1) = [exFollowUpV1]
   \<and> selectedVersion (exPreview exVersion2) = Some exVersion2
   \<and> ov_version exVersion2 = 2
   \<and> ov_follow_ups exVersion2 = None
   \<and> displayFollowUps (exPreview exVersion2) = [exFollowUpV1, exFollowUpV3]
   \<and> map snd (followUpEntries (exPreview exVersion2)) = [exFollowUpV1, exFollowUpV3]
   \<and> fu_version exFollowUpV3 = Some 3
   \<and> askedAfter exVersion2 exFollowUpV3"
proof -
  have ctl: "historyControlShown (Some exAdmin) exLoaded"
    by (simp add: historyControlShown_def pageShown_def hasHistory_def num_or_def
        userIsAdmin_def exAdmin_def exLoaded_eq initialState_def exMeeting_def)
  have hist: "exVersion1 \<in> set (obj_or (opinion_history exMeeting) [])"
    "exVersion2 \<in> set (obj_or (opinion_history exMeeting) [])"
    by (simp_all add: obj_or_def exMeeting_def)
  have live: "followUps exLoaded = [exFollowUpV1, exFollowUpV3]"
    by (simp add: exLoaded_eq)
  have sel1: "selectedVersion (exPreview exVersion1) = Some exVersion1"
    and sel2: "selectedVersion (exPreview exVersion2) = Some exVersion2"
    by (simp_all add: exPreview_eq)
  have some: "ov_follow_ups exVersion1 = Some [exFollowUpV1]"
    by (simp add: exVersion1_def)
  have none: "ov_follow_ups exVersion2 = None" and two: "ov_version exVersion2 = 2"
    by (simp_all add: exVersion2_def)
  have shown1: "displayFollowUps (exPreview exVersion1) = [exFollowUpV1]"
    using displayFollowUps_of_snapshot [OF sel1 some] by simp
  have shown2: "displayFollowUps (exPreview exVersion2) = [exFollowUpV1, exFollowUpV3]"
    using displayFollowUps_without_list [OF sel2 none] by (simp add: exPreview_eq live)
  then have entries: "map snd (followUpEntries (exPreview exVersion2))
      = [exFollowUpV1, exFollowUpV3]"
    by (simp add: followUpEntries_def comp_def)
  have stamp: "fu_version exFollowUpV3 = Some 3"
    by (simp add: exFollowUpV3_def)
  have later: "askedAfter exVersion2 exFollowUpV3"
    by (simp add: askedAfter_def two stamp)
  from ctl hist live sel1 some shown1 sel2 two none shown2 entries stamp later
  show ?thesis by simp
qed

text \<open>
  Claim C8. When a historical version \<open>v\<close> is selected for preview and its chair summary
  and chair recommendation are non-empty strings, the chair summary and recommendation
  displayed are exactly those of \<open>v\<close>.
\<close>

theorem displayChair_snapshot:
  assumes "selectedVersion st = Some v"
    and "ov_chair_summary v \<noteq> []"
    and "ov_chair_recommendation v \<noteq> []"
  shows "displayChairSummary st = ov_chair_summary v
         \<and> displayChairRecommendation st = ov_chair_recommendation v"
  using assms by (simp add: displayChairSummary_def displayChairRecommendation_def str_or_def)

theorem displayChair_snapshot_witness:
  "selectedVersion (exPreview exVersion1) = Some exVersion1
   \<and> ov_chair_summary exVersion1 \<noteq> [] \<and> ov_chair_recommendation exVersion1 \<noteq> []
   \<and> displayChairSummary (exPreview exVersion1) = ''Summary one''
   \<and> displayChairRecommendation (exPreview exVersion1) = ''Wait''
   \<and> chair_summary exMeeting = ''Summary three''"
proof -
  have sel: "selectedVersion (exPreview exVersion1) = Some exVersion1"
    by (simp add: exPreview_eq)
  have s: "ov_chair_summary exVersion1 = ''Summary one''"
    and r: "ov_chair_recommendation exVersion1 = ''Wait''"
    by (simp_all add: exVersion1_def)
  have s': "ov_chair_summary exVersion1 \<noteq> []" and r': "ov_chair_recommendation exVersion1 \<noteq> []"
    by (simp_all add: s r)
  from displayChair_snapshot [OF sel s' r'] sel s r show ?thesis
    by (simp add: exMeeting_def)
qed

subsection \<open>Failed requests\<close>

text \<open>
  Claim C5. A failed restore or follow-up attempt leaves the meeting state of the page as
  it was: on its error path \<open>handleRestoreVersion\<close> changes nothing but the busy flag
  \<open>restoringVersion\<close>, which it resets to \<open>false\<close>, its value whenever no restore is
  running, so the state is exactly the one before the attempt; the same holds for
  \<open>handleFollowUpSubmit\<close> and \<open>submittingFollowUp\<close>. \<open>handleFollowUpSubmit\<close> appends to
  the follow-up list on success only, and never touches the meeting.
\<close>

theorem failed_restore_followUp_keep_state:
  "handleRestoreVersion version confirmed (Inl err) st
     = (if confirmed then st\<lparr>restoringVersion := False\<rparr> else st)
   \<and> meeting (handleRestoreVersion version confirmed (Inl err) st) = meeting st
   \<and> followUps (handleRestoreVersion version confirmed (Inl err) st) = followUps st
   \<and> selectedVersion (handleRestoreVersion version confirmed (Inl err) st) = selectedVersion st
   \<and> (\<not> restoringVersion st \<longrightarrow> handleRestoreVersion version confirmed (Inl err) st = st)
   \<and> handleFollowUpSubmit (Inl err) st
     = (if trim (followUpQuestion st) = [] then st else st\<lparr>submittingFollowUp := False\<rparr>)
   \<and> meeting (handleFollowUpSubmit resp st) = meeting st
   \<and> followUps (handleFollowUpSubmit (Inl err) st) = followUps st
   \<and> (\<not> submittingFollowUp st \<longrightarrow> handleFollowUpSubmit (Inl err) st = st)
   \<and> followUps (handleFollowUpSubmit (Inr data) st)
     = (if trim (followUpQuestion st) = [] then followUps st else followUps st @ [data])
   \<and> (followUps (handleFollowUpSubmit resp st) \<noteq> followUps st \<longrightarrow> (\<exists>d. resp = Inr d))"
proof -
  have r1: "handleRestoreVersion version confirmed (Inl err) st
     = (if confirmed then st\<lparr>restoringVersion := False\<rparr> else st)"
    by (simp add: handleRestoreVersion_def)
  have r2: "\<not> restoringVersion st \<longrightarrow> handleRestoreVersion version confirmed (Inl err) st = st"
    unfolding r1 by (cases st) simp
  have f1: "handleFollowUpSubmit (Inl err) st
     = (if trim (followUpQuestion st) = [] then st else st\<lparr>submittingFollowUp := False\<rparr>)"
    by (simp add: handleFollowUpSubmit_def)
  have f2: "\<not> submittingFollowUp st \<longrightarrow> handleFollowUpSubmit (Inl err) st = st"
    unfolding f1 by (cases st) simp
  have f3: "meeting (handleFollowUpSubmit resp st) = meeting st"
    by (cases resp) (simp_all add: handleFollowUpSubmit_def)
  have f4: "followUps (handleFollowUpSubmit (Inr data) st)
     = (if trim (followUpQuestion st) = [] then followUps st else followUps st @ [data])"
    by (simp add: handleFollowUpSubmit_def)
  have f5: "followUps (handleFollowUpSubmit resp st) \<noteq> followUps st \<longrightarrow> (\<exists>d. resp = Inr d)"
    by (cases resp) (simp_all add: handleFollowUpSubmit_def)
  from r2 f2 f3 f4 f5 show ?thesis
    by (simp add: r1 f1)
qed


lemma exAsking_eq:
  "exAsking = exLoaded\<lparr>showFollowUp := True, followUpQuestion := ''And then?''\<rparr>"
  by (simp add: exAsking_def run_def exLoaded_def)

theorem failed_restore_followUp_keep_state_witness:
  "\<not> restoringVersion exAsking
   \<and> handleRestoreVersion 1 True (Inl (Some ''Version not found'')) exAsking = exAsking
   \<and> \<not> submittingFollowUp exAsking
   \<and> handleFollowUpSubmit (Inl None) exAsking = exAsking
   \<and> followUps (handleFollowUpSubmit (Inr exFollowUpV3) exAsking)
       = [exFollowUpV1, exFollowUpV3, exFollowUpV3]"
proof -
  have idle: "\<not> restoringVersion exAsking" "\<not> submittingFollowUp exAsking"
    by (simp_all add: exAsking_eq exLoaded_eq initialState_def)
  have q: "trim (followUpQuestion exAsking) \<noteq> []"
    by (simp add: exAsking_eq trim_def isStrWhiteSpaceChar_def)
  have fs: "followUps exAsking = [exFollowUpV1, exFollowUpV3]"
    by (simp add: exAsking_eq exLoaded_eq)
  note t = failed_restore_followUp_keep_state
  from t [of 1 True "Some ''Version not found''" exAsking "Inl None" exFollowUpV3] idle
  have a: "handleRestoreVersion 1 True (Inl (Some ''Version not found'')) exAsking = exAsking"
    by blast
  from t [of 1 True None exAsking "Inl None" exFollowUpV3] idle
  have b: "handleFollowUpSubmit (Inl None) exAsking = exAsking"
    by blast
  from t [of 1 True None exAsking "Inl None" exFollowUpV3] q fs
  have c: "followUps (handleFollowUpSubmit (Inr exFollowUpV3) exAsking)
       = [exFollowUpV1, exFollowUpV3, exFollowUpV3]"
    by simp
  from idle a b c show ?thesis by simp
qed

subsection \<open>The polling interval\<close>

lemmas handler_defs =
  fetchMeeting_def startPolling_def stopPolling_def pollTick_def
  handleRegenerate_begin_def handleRegenerate_end_def handleRestoreVersion_def
  handleFollowUpSubmit_def handleFileUpload_def handleRemoveFile_def toggleLogExpanded_def

lemma dispatch_pollingIntervalMs:
  "\<not> isFetchSettings ev \<Longrightarrow> pollingIntervalMs (dispatch user st ev) = pollingIntervalMs st"
  by (cases ev) (simp_all add: isFetchSettings_def handler_defs Let_def split: sum.splits)

lemma fetchSettings_pollingAtLeast500:
  "pollingAtLeast500 st \<Longrightarrow> pollingAtLeast500 (fetchSettings user resp st)"
  by (simp add: fetchSettings_def pollingAtLeast500_def Let_def split: sum.splits option.splits)

lemma dispatch_pollingAtLeast500:
  assumes "pollingAtLeast500 st"
  shows "pollingAtLeast500 (dispatch user st ev)"
proof (cases "isFetchSettings ev")
  case True
  then obtain resp where "ev = EvFetchSettings resp"
    by (cases ev) (simp_all add: isFetchSettings_def)
  with assms show ?thesis
    by (simp add: fetchSettings_pollingAtLeast500)
next
  case False
  with assms show ?thesis
    by (simp add: dispatch_pollingIntervalMs pollingAtLeast500_def)
qed

lemma run_pollingAtLeast500:
  "pollingAtLeast500 st \<Longrightarrow> pollingAtLeast500 (run user evs st)"
  unfolding run_def
  by (induction evs arbitrary: st) (simp_all add: dispatch_pollingAtLeast500)

text \<open>
  What holds of the polling interval: \<open>pollingIntervalMs\<close> starts at 2000 and, after any
  sequence of events, is a Number that is at least 500; and the timer fires at that
  interval whenever the number is below \<open>2^31\<close>.
\<close>

lemma pollingIntervalMs_atLeast500:
  "pollingIntervalMs initialState = Num 2000
   \<and> numGe (pollingIntervalMs (run user evs initialState)) 500"
proof -
  have "pollingAtLeast500 initialState"
    by (simp add: pollingAtLeast500_def initialState_def numGe_def)
  then have "pollingAtLeast500 (run user evs initialState)"
    by (rule run_pollingAtLeast500)
  then show ?thesis
    by (simp add: pollingAtLeast500_def initialState_def)
qed

lemma timerDelay_in_range:
  "0 \<le> n \<Longrightarrow> n < 2 ^ 31 \<Longrightarrow> timerDelay (Num n) = n"
  by (simp add: timerDelay_def toInt32_def)

lemma parseInt_intervals:
  "parseInt ''4294967396'' = Some 4294967396"
  "parseInt ''2147483648'' = Some 2147483648"
  "parseInt ''750'' = Some 750"
  "parseInt ''100'' = Some 100"
  by (simp_all add: parseInt_def isStrWhiteSpaceChar_def isRadixDigit_def digitVal_def)

lemma numberOfInt_intervals:
  "numberOfInt 4294967396 = Num 4294967396"
  "numberOfInt 2147483648 = Num 2147483648"
  "numberOfInt 750 = Num 750"
  "numberOfInt 100 = Num 100"
  by (simp_all add: numberOfInt_def roundToDouble_def)

lemma numberOfInt_rounds:
  "numberOfInt 9007199254740993 = Num 9007199254740992"
  "numberOfInt (- 9007199254740995) = Num (- 9007199254740996)"
  by (simp_all add: numberOfInt_def roundToDouble_def Let_def)

lemma exRegenerateWith_eq:
  "exRegenerateWith p =
     handleRegenerate_begin True
       (fetchSettings (Some exAdmin) (Inr (exSettings p)) exLoaded)"
  by (simp add: exRegenerateWith_def run_def exLoaded_def)

text \<open>
  Claim C9, evaluated on the page. The guard of \<open>fetchSettings\<close> bounds the configured
  interval from below only. With the admin setting \<open>polling_interval = '4294967396'\<close> the
  value parses, passes \<open>interval >= 500\<close> and is stored; \<open>startPolling\<close> hands it to
  \<open>setInterval\<close>, whose 32-bit delay is then 100 ms, and with \<open>'2147483648'\<close> it is 0 ms:
  the meeting is polled more often than every 500 ms. A setting of \<open>'750'\<close> polls every
  750 ms, and \<open>'100'\<close> is refused and leaves 2000 ms.
\<close>

theorem polling_delay_below_500_after_overflow:
  "regenerateOffered (Some exAdmin) (fetchSettings (Some exAdmin) (Inr (exSettings ''4294967396'')) exLoaded)
   \<and> parseInt ''4294967396'' = Some 4294967396
   \<and> pollingIntervalMs (exRegenerateWith ''4294967396'') = Num 4294967396
   \<and> numGe (pollingIntervalMs (exRegenerateWith ''4294967396'')) 500
   \<and> pollingIntervalRef (exRegenerateWith ''4294967396'') = Some 100
   \<and> pollingIntervalRef (exRegenerateWith ''2147483648'') = Some 0
   \<and> pollingIntervalRef (exRegenerateWith ''750'') = Some 750
   \<and> pollingIntervalRef (exRegenerateWith ''100'') = Some 2000"
proof -
  have adm: "userIsAdmin (Some exAdmin)"
    by (simp add: userIsAdmin_def exAdmin_def)
  have idle: "pollingIntervalRef exLoaded = None" "pollingIntervalMs exLoaded = Num 2000"
    by (simp_all add: exLoaded_eq initialState_def)
  have stored: "fetchSettings (Some exAdmin) (Inr (exSettings p)) exLoaded
              = exLoaded\<lparr>pollingIntervalMs := Num n\<rparr>"
    if "parseInt p = Some n" "numberOfInt n = Num n" "500 \<le> n" "p \<noteq> []" for p n
    using that by (simp add: fetchSettings_def adm exSettings_def numGe_def)
  have refused: "fetchSettings (Some exAdmin) (Inr (exSettings ''100'')) exLoaded = exLoaded"
    by (simp add: fetchSettings_def adm exSettings_def parseInt_intervals numberOfInt_intervals
        numGe_def)
  have started: "handleRegenerate_begin True (exLoaded\<lparr>pollingIntervalMs := x\<rparr>)
      = exLoaded\<lparr>pollingIntervalMs := x, regenerating := True, selectedVersion := None,
                 pollingIntervalRef := Some (timerDelay x)\<rparr>" for x
    by (simp add: handleRegenerate_begin_def startPolling_def idle)
  have started0: "handleRegenerate_begin True exLoaded
      = exLoaded\<lparr>regenerating := True, selectedVersion := None,
                 pollingIntervalRef := Some (timerDelay (Num 2000))\<rparr>"
    by (simp add: handleRegenerate_begin_def startPolling_def idle)
  have s1: "fetchSettings (Some exAdmin) (Inr (exSettings ''4294967396'')) exLoaded
              = exLoaded\<lparr>pollingIntervalMs := Num 4294967396\<rparr>"
    by (rule stored) (simp_all add: parseInt_intervals numberOfInt_intervals)
  have s2: "fetchSettings (Some exAdmin) (Inr (exSettings ''2147483648'')) exLoaded
              = exLoaded\<lparr>pollingIntervalMs := Num 2147483648\<rparr>"
    by (rule stored) (simp_all add: parseInt_intervals numberOfInt_intervals)
  have s3: "fetchSettings (Some exAdmin) (Inr (exSettings ''750'')) exLoaded
              = exLoaded\<lparr>pollingIntervalMs := Num 750\<rparr>"
    by (rule stored) (simp_all add: parseInt_intervals numberOfInt_intervals)
  have offered: "regenerateOffered (Some exAdmin)
      (fetchSettings (Some exAdmin) (Inr (exSettings ''4294967396'')) exLoaded)"
    unfolding s1
    by (simp add: regenerateOffered_def pageShown_def meetingStatusIs_def adm exLoaded_eq
        exMeeting_def)
  have ms: "pollingIntervalMs (exRegenerateWith ''4294967396'') = Num 4294967396"
    by (simp add: exRegenerateWith_eq s1 started)
  have d1: "pollingIntervalRef (exRegenerateWith ''4294967396'') = Some 100"
    by (simp add: exRegenerateWith_eq s1 started timerDelay_def toInt32_def)
  have d2: "pollingIntervalRef (exRegenerateWith ''2147483648'') = Some 0"
    by (simp add: exRegenerateWith_eq s2 started timerDelay_def toInt32_def)
  have d3: "pollingIntervalRef (exRegenerateWith ''750'') = Some 750"
    by (simp add: exRegenerateWith_eq s3 started timerDelay_def toInt32_def)
  have d4: "pollingIntervalRef (exRegenerateWith ''100'') = Some 2000"
    by (simp add: exRegenerateWith_eq refused started0 timerDelay_def toInt32_def)
  from offered ms d1 d2 d3 d4 show ?thesis
    by (simp add: parseInt_intervals numGe_def)
qed

subsection \<open>When regenerate and follow-up are offered\<close>

lemma buttons_need_completed:
  "(regenerateOffered user st \<longrightarrow> userIsAdmin user \<and> meetingStatusIs completed st)
   \<and> (askFollowUpOffered st \<longrightarrow> meetingStatusIs completed st \<and> selectedVersion st = None)
   \<and> (meetingStatusIs in_progress st \<longrightarrow>
         \<not> regenerateOffered user st \<and> \<not> askFollowUpOffered st)"
  by (auto simp: regenerateOffered_def askFollowUpOffered_def meetingStatusIs_def
      split: option.splits)

lemma exRegenerating_eq:
  "exRegenerating =
     exAsking\<lparr>regenerating := True, pollingIntervalRef := Some 2000,
              meeting := Some (exMeeting\<lparr>status := in_progress\<rparr>)\<rparr>"
  by (simp add: exRegenerating_def exAsking_eq exLoaded_eq run_def exLoaded_def
      fetchMeeting_def handleRegenerate_begin_def startPolling_def pollTick_def
      initialState_def obj_or_def exMeeting_def timerDelay_def toInt32_def)

text \<open>
  Claim C7, evaluated on the page. The Regenerate button and the Ask Follow-up button are
  rendered on a completed meeting only (lemma \<open>buttons_need_completed\<close>), but the follow-up
  form, once opened, is rendered whatever the status is: after the form is opened on the
  completed example meeting, Regenerate is confirmed and a poll returns the meeting as
  \<open>in_progress\<close>, both buttons are gone while the form is still shown, and submitting it
  runs \<open>handleFollowUpSubmit\<close>, which appends the answer to the follow-up list.
\<close>

theorem followUp_form_shown_while_in_progress:
  "askFollowUpOffered exLoaded
   \<and> regenerateOffered (Some exAdmin) exAsking
   \<and> meetingStatusIs in_progress exRegenerating
   \<and> \<not> regenerateOffered (Some exAdmin) exRegenerating
   \<and> \<not> askFollowUpOffered exRegenerating
   \<and> followUpFormShown exRegenerating
   \<and> followUps (handleFollowUpSubmit (Inr exFollowUpV3) exRegenerating)
       = followUps exRegenerating @ [exFollowUpV3]"
proof -
  have a: "askFollowUpOffered exLoaded"
    by (simp add: askFollowUpOffered_def pageShown_def meetingStatusIs_def exLoaded_eq
        initialState_def exMeeting_def)
  have b: "regenerateOffered (Some exAdmin) exAsking"
    by (simp add: regenerateOffered_def pageShown_def meetingStatusIs_def exAsking_eq
        exLoaded_eq userIsAdmin_def exAdmin_def exMeeting_def)
  have c: "meetingStatusIs in_progress exRegenerating"
    by (simp add: meetingStatusIs_def exRegenerating_eq)
  have d: "followUpFormShown exRegenerating"
    by (simp add: followUpFormShown_def pageShown_def exRegenerating_eq exAsking_eq
        exLoaded_eq initialState_def)
  have q: "trim (followUpQuestion exRegenerating) \<noteq> []"
    by (simp add: exRegenerating_eq exAsking_eq trim_def isStrWhiteSpaceChar_def)
  have e: "followUps (handleFollowUpSubmit (Inr exFollowUpV3) exRegenerating)
       = followUps exRegenerating @ [exFollowUpV3]"
    using q by (simp add: handleFollowUpSubmit_def)
  from buttons_need_completed [of "Some exAdmin" exRegenerating] c
  have f: "\<not> regenerateOffered (Some exAdmin) exRegenerating"
    "\<not> askFollowUpOffered exRegenerating"
    by simp_all
  from a b c d e f show ?thesis by simp
qed

subsection \<open>The debug-log panel\<close>

text \<open>Reversing the stored array itself would overwrite it: the copy matters.\<close>

lemma reverseArray_in_place:
  "a < length h \<Longrightarrow> snd (reverseArray h a) ! a = rev (h ! a)"
  by (simp add: reverseArray_def)

lemma debugLogRows_store:
  "snd (debugLogRows expanded h a) = h @ [rev (h ! a)]"
  by (simp add: debugLogRows_def spreadArray_def reverseArray_def)

lemma debugLogRows_logs:
  "map row_log (fst (debugLogRows expanded h a)) = rev (h ! a)"
proof -
  have "row_log \<circ> (\<lambda>(index, log).
           \<lparr>row_key = index, row_log = log, row_hasDetails = detailsTruthy log,
            row_expanded = (detailsTruthy log \<and> int index \<in> expanded)\<rparr>) = snd"
    by (auto simp: fun_eq_iff)
  then show ?thesis
    by (simp add: debugLogRows_def spreadArray_def reverseArray_def)
qed

lemma debugLogRows_keys:
  "map row_key (fst (debugLogRows expanded h a)) = [0..<length (h ! a)]"
proof -
  have "row_key \<circ> (\<lambda>(index, log).
           \<lparr>row_key = index, row_log = log, row_hasDetails = detailsTruthy log,
            row_expanded = (detailsTruthy log \<and> int index \<in> expanded)\<rparr>) = fst"
    by (auto simp: fun_eq_iff)
  then show ?thesis
    by (simp add: debugLogRows_def spreadArray_def reverseArray_def)
qed

text \<open>
  Claim C6. The debug-log entries are displayed newest-first without touching the stored,
  chronological list: the entries of the rendered rows are exactly the reverse of the
  stored array, row \<open>i\<close> having key \<open>i\<close>; the reversal works on a new array, so every
  array that was in the store, the stored log list among them, is afterwards what it was
  before. For the page: whenever the panel list is rendered, it is the reverse of
  \<open>debugLogs\<close>, which is \<open>meeting.debug_logs\<close> when that is present, and the array
  \<open>debugLogs\<close> is unchanged.
\<close>

theorem debugLogs_newest_first_on_copy:
  "map row_log (fst (debugLogRows expanded h a)) = rev (h ! a)
   \<and> map row_key (fst (debugLogRows expanded h a)) = [0..<length (h ! a)]
   \<and> take (length h) (snd (debugLogRows expanded h a)) = h
   \<and> (a < length h \<longrightarrow> snd (debugLogRows expanded h a) ! a = h ! a)
   \<and> (renderedDebugLogs user st = Some (rows, h') \<longrightarrow>
         map row_log rows = rev (debugLogs st) \<and> h' ! 0 = debugLogs st)
   \<and> (meeting st = Some m \<and> debug_logs m = Some logs \<longrightarrow> debugLogs st = logs)"
proof -
  have keep: "take (length h) (snd (debugLogRows expanded h a)) = h"
    by (simp add: debugLogRows_store)
  have cell: "a < length h \<longrightarrow> snd (debugLogRows expanded h a) ! a = h ! a"
    by (simp add: debugLogRows_store nth_append)
  have page: "renderedDebugLogs user st = Some (rows, h') \<longrightarrow>
         map row_log rows = rev (debugLogs st) \<and> h' ! 0 = debugLogs st"
  proof
    assume r: "renderedDebugLogs user st = Some (rows, h')"
    then have eq: "debugLogRows (expandedLogIds st) [debugLogs st] 0 = (rows, h')"
      by (simp add: renderedDebugLogs_def split: if_splits)
    from debugLogRows_logs [of "expandedLogIds st" "[debugLogs st]" 0] eq
    have 1: "map row_log rows = rev (debugLogs st)" by simp
    from debugLogRows_store [of "expandedLogIds st" "[debugLogs st]" 0] eq
    have 2: "h' ! 0 = debugLogs st" by simp
    from 1 2 show "map row_log rows = rev (debugLogs st) \<and> h' ! 0 = debugLogs st" ..
  qed
  have stored: "meeting st = Some m \<and> debug_logs m = Some logs \<longrightarrow> debugLogs st = logs"
    by (simp add: debugLogs_def obj_or_def)
  from keep cell page stored show ?thesis
    by (simp add: debugLogRows_logs debugLogRows_keys)
qed

lemma exLogged_eq:
  "exLogged = initialState\<lparr>meeting := Some (exMeeting\<lparr>debug_logs := Some [exLogInfo, exLogError]\<rparr>),
                followUps := [exFollowUpV1, exFollowUpV3], loading := False,
                showDebugLogs := True\<rparr>"
  by (simp add: exLogged_def run_def fetchMeeting_def initialState_def exMeeting_def obj_or_def)

theorem debugLogs_newest_first_on_copy_witness:
  "meeting exLogged = Some (exMeeting\<lparr>debug_logs := Some [exLogInfo, exLogError]\<rparr>)
   \<and> debug_logs (exMeeting\<lparr>debug_logs := Some [exLogInfo, exLogError]\<rparr>)
       = Some [exLogInfo, exLogError]
   \<and> debugLogs exLogged = [exLogInfo, exLogError]
   \<and> (0::nat) < length [debugLogs exLogged]
   \<and> snd (debugLogRows {} [debugLogs exLogged] 0) ! 0 = [exLogInfo, exLogError]
   \<and> (\<exists>rows h'. renderedDebugLogs (Some exAdmin) exLogged = Some (rows, h')
         \<and> map row_log rows = [exLogError, exLogInfo]
         \<and> h' ! 0 = [exLogInfo, exLogError])"
proof -
  let ?m = "exMeeting\<lparr>debug_logs := Some [exLogInfo, exLogError]\<rparr>"
  have m: "meeting exLogged = Some ?m" by (simp add: exLogged_eq)
  have l: "debug_logs ?m = Some [exLogInfo, exLogError]" by simp
  obtain rows h' where rh: "debugLogRows (expandedLogIds exLogged) [debugLogs exLogged] 0 = (rows, h')"
    by (cases "debugLogRows (expandedLogIds exLogged) [debugLogs exLogged] 0")
  note t = debugLogs_newest_first_on_copy
    [of "{}" "[debugLogs exLogged]" 0 "Some exAdmin" exLogged rows h' ?m "[exLogInfo, exLogError]"]
  from t m l have logs: "debugLogs exLogged = [exLogInfo, exLogError]" by blast
  have shown: "debugPanelShown (Some exAdmin) exLogged \<and> showDebugLogs exLogged"
    by (simp add: debugPanelShown_def pageShown_def userIsAdmin_def exAdmin_def logs)
       (simp add: exLogged_eq initialState_def)
  then have r: "renderedDebugLogs (Some exAdmin) exLogged = Some (rows, h')"
    by (simp add: renderedDebugLogs_def rh)
  with t logs have "map row_log rows = [exLogError, exLogInfo] \<and> h' ! 0 = [exLogInfo, exLogError]"
    by simp
  with r have ex: "\<exists>rows h'. renderedDebugLogs (Some exAdmin) exLogged = Some (rows, h')
         \<and> map row_log rows = [exLogError, exLogInfo]
         \<and> h' ! 0 = [exLogInfo, exLogError]"
    by (intro exI [of _ rows] exI [of _ h']) simp
  from t logs have cell: "snd (debugLogRows {} [debugLogs exLogged] 0) ! 0 = [exLogInfo, exLogError]"
    by simp
  from m l logs cell ex show ?thesis by simp
qed

subsection \<open>Saving the token limits\<close>

lemma handleSaveTokenLimits_rejects_agent:
  "\<not> parsesInRange a \<Longrightarrow>
   handleSaveTokenLimits a c resp = [ToastError ''Agent max tokens must be between 500 and 16000'']"
  by (auto simp: handleSaveTokenLimits_def parsesInRange_def split: option.splits)

lemma handleSaveTokenLimits_rejects_chair:
  "parsesInRange a \<Longrightarrow> \<not> parsesInRange c \<Longrightarrow>
   handleSaveTokenLimits a c resp = [ToastError ''Chair max tokens must be between 500 and 16000'']"
  by (auto simp: handleSaveTokenLimits_def parsesInRange_def split: option.splits)

lemma handleSaveTokenLimits_accepts:
  assumes "parsesInRange a" and "parsesInRange c"
  shows "\<exists>n m. parseInt a = Some n \<and> parseInt c = Some m
           \<and> take 2 (handleSaveTokenLimits a c resp)
               = [SetSavingTokenLimits True,
                  PutSettings [(''agent_max_tokens'', numberToString n),
                               (''chair_max_tokens'', numberToString m)]]"
  using assms
  by (auto simp: handleSaveTokenLimits_def parsesInRange_def split: option.splits)

text \<open>
  Claim C4. \<open>handleSaveTokenLimits\<close> issues the settings-update request if and only if
  both the agent and the chair max-token inputs parse to numbers in the range from 500 to
  16000. When the agent input is unparsable or out of range, or else when the chair input
  is, all it does is show the error message for that input, and no request is made. When
  both are in range the request carries the two parsed numbers as decimal strings.
\<close>

theorem handleSaveTokenLimits_request_iff_in_range:
  "issuesRequest (handleSaveTokenLimits a c resp) = (parsesInRange a \<and> parsesInRange c)
   \<and> (\<not> parsesInRange a \<longrightarrow>
         handleSaveTokenLimits a c resp
           = [ToastError ''Agent max tokens must be between 500 and 16000''])
   \<and> (parsesInRange a \<and> \<not> parsesInRange c \<longrightarrow>
         handleSaveTokenLimits a c resp
           = [ToastError ''Chair max tokens must be between 500 and 16000''])
   \<and> (parsesInRange a \<and> parsesInRange c \<longrightarrow>
         (\<exists>n m. parseInt a = Some n \<and> parseInt c = Some m
            \<and> take 2 (handleSaveTokenLimits a c resp)
                = [SetSavingTokenLimits True,
                   PutSettings [(''agent_max_tokens'', numberToString n),
                                (''chair_max_tokens'', numberToString m)]]))"
proof -
  have iff: "issuesRequest (handleSaveTokenLimits a c resp) = (parsesInRange a \<and> parsesInRange c)"
  proof (cases "parsesInRange a")
    case False
    then show ?thesis
      by (simp add: handleSaveTokenLimits_rejects_agent issuesRequest_def isPutSettings_def)
  next
    case a: True
    show ?thesis
    proof (cases "parsesInRange c")
      case False
      with a show ?thesis
        by (simp add: handleSaveTokenLimits_rejects_chair issuesRequest_def isPutSettings_def)
    next
      case True
      with a show ?thesis
        by (auto simp: handleSaveTokenLimits_def parsesInRange_def issuesRequest_def
            isPutSettings_def split: option.splits)
    qed
  qed
  from iff handleSaveTokenLimits_rejects_agent [of a c resp]
    handleSaveTokenLimits_rejects_chair [of a c resp]
    handleSaveTokenLimits_accepts [of a c resp]
  show ?thesis by blast
qed

lemma parseInt_examples:
  "parseInt ''2000'' = Some 2000" "parseInt ''3000'' = Some 3000"
  "parseInt ''499'' = Some 499" "parseInt ''16001'' = Some 16001"
  "parseInt ''many'' = None" "parseInt '''' = None"
  by (simp_all add: parseInt_def isStrWhiteSpaceChar_def isRadixDigit_def digitVal_def)

theorem handleSaveTokenLimits_request_iff_in_range_witness:
  "parsesInRange ''2000'' \<and> parsesInRange ''3000''
   \<and> issuesRequest (handleSaveTokenLimits ''2000'' ''3000'' (Inr ()))
   \<and> handleSaveTokenLimits ''2000'' ''3000'' (Inr ())
       = [SetSavingTokenLimits True,
          PutSettings [(''agent_max_tokens'', ''2000''), (''chair_max_tokens'', ''3000'')],
          ToastSuccess ''Token limits saved successfully'', FetchSettings,
          SetSavingTokenLimits False]
   \<and> \<not> parsesInRange ''499''
   \<and> handleSaveTokenLimits ''499'' ''3000'' (Inr ())
       = [ToastError ''Agent max tokens must be between 500 and 16000'']
   \<and> \<not> issuesRequest (handleSaveTokenLimits ''499'' ''3000'' (Inr ()))
   \<and> \<not> parsesInRange ''many''
   \<and> handleSaveTokenLimits ''2000'' ''many'' (Inr ())
       = [ToastError ''Chair max tokens must be between 500 and 16000'']
   \<and> \<not> parsesInRange ''16001''
   \<and> \<not> issuesRequest (handleSaveTokenLimits ''2000'' ''16001'' (Inr ()))"
proof -
  have ok: "parsesInRange ''2000''" "parsesInRange ''3000''"
    by (simp_all add: parsesInRange_def parseInt_examples)
  have bad: "\<not> parsesInRange ''499''" "\<not> parsesInRange ''many''" "\<not> parsesInRange ''16001''"
    by (simp_all add: parsesInRange_def parseInt_examples)
  note t = handleSaveTokenLimits_request_iff_in_range
  from t [of "''2000''" "''3000''" "Inr ()"] ok
  have 1: "issuesRequest (handleSaveTokenLimits ''2000'' ''3000'' (Inr ()))" by simp
  have 2: "handleSaveTokenLimits ''2000'' ''3000'' (Inr ())
       = [SetSavingTokenLimits True,
          PutSettings [(''agent_max_tokens'', ''2000''), (''chair_max_tokens'', ''3000'')],
          ToastSuccess ''Token limits saved successfully'', FetchSettings,
          SetSavingTokenLimits False]"
    by (simp add: handleSaveTokenLimits_def parseInt_examples numberToString_def digitChar_def)
  from t [of "''499''" "''3000''" "Inr ()"] bad
  have 3: "handleSaveTokenLimits ''499'' ''3000'' (Inr ())
       = [ToastError ''Agent max tokens must be between 500 and 16000'']"
    and 4: "\<not> issuesRequest (handleSaveTokenLimits ''499'' ''3000'' (Inr ()))"
    by blast+
  from t [of "''2000''" "''many''" "Inr ()"] ok bad
  have 5: "handleSaveTokenLimits ''2000'' ''many'' (Inr ())
       = [ToastError ''Chair max tokens must be between 500 and 16000'']"
    by simp
  from t [of "''2000''" "''16001''" "Inr ()"] ok bad
  have 6: "\<not> issuesRequest (handleSaveTokenLimits ''2000'' ''16001'' (Inr ()))"
    by blast
  from ok bad 1 2 3 4 5 6 show ?thesis by simp
qed

subsection \<open>The version number counts the history\<close>

lemma vm_reachable_version:
  "vm_reachable b \<Longrightarrow> v_current_version b = int (length (v_opinion_history b)) + 1"
proof (induction rule: vm_reachable.induct)
  case (reach_create q c outcome m)
  then show ?case
    by (auto simp: vm_create_def created_def split: option.splits if_splits)
next
  case (reach_regenerate m who outcome m')
  then show ?case
    by (auto simp: vm_regenerate_def regenerated_def split: option.splits if_splits)
next
  case (reach_restore m who v m')
  then show ?case
    by (auto simp: vm_restore_def restored_def split: option.splits if_splits)
next
  case (reach_follow_up m f m')
  then show ?case
    by (auto simp: vm_follow_up_def split: if_splits)
qed

text \<open>
  What the page computes, for any meeting it holds: the length of \<open>opinion_history\<close> plus
  one (an absent history counts as empty), whatever \<open>current_version\<close> says.
\<close>

lemma historyCount_is_length:
  "historyCount (Some m) = int (length (obj_or (opinion_history m) [])) + 1
   \<and> historyLabelCount m = int (length (obj_or (opinion_history m) [])) + 1
   \<and> historyCount None = 1"
  by (simp add: historyCount_def historyLabelCount_def num_or_def obj_or_def
      split: option.splits)

text \<open>
  Claim C1. For every meeting the Version Manager can hold, that is after every successful
  create, regenerate or restore (and follow-up), \<open>current_version\<close> equals the length of
  \<open>opinion_history\<close> plus one. The page computes the number of versions it offers, in the
  label of the History control and in the confirmation prompt of Regenerate, as the length
  of the \<open>opinion_history\<close> it holds plus one, for any meeting \<open>m'\<close> and whatever its
  \<open>current_version\<close> field is; so for a meeting \<open>m\<close> that carries the history of a meeting
  of the Version Manager, that number equals its \<open>current_version\<close>, and when \<open>m\<close> carries
  the version number too, it equals the version named in the prompt.
\<close>

theorem current_version_counts_history:
  assumes "vm_reachable b"
  shows "v_current_version b = int (length (v_opinion_history b)) + 1
         \<and> historyCount (Some m') = int (length (obj_or (opinion_history m') [])) + 1
         \<and> historyLabelCount m' = int (length (obj_or (opinion_history m') [])) + 1
         \<and> historyCount None = 1
         \<and> (obj_or (opinion_history m) [] = v_opinion_history b \<longrightarrow>
               historyCount (Some m) = v_current_version b
               \<and> historyLabelCount m = v_current_version b)
         \<and> (clientView b m \<longrightarrow>
               savedAsVersion (Some m) = v_current_version b
               \<and> historyCount (Some m) = savedAsVersion (Some m))"
proof -
  have inv: "v_current_version b = int (length (v_opinion_history b)) + 1"
    by (rule vm_reachable_version [OF assms])
  have hist: "obj_or (opinion_history m) [] = v_opinion_history b \<longrightarrow>
               historyCount (Some m) = v_current_version b
               \<and> historyLabelCount m = v_current_version b"
    using historyCount_is_length [of m] inv by simp
  have saved: "clientView b m \<longrightarrow> savedAsVersion (Some m) = v_current_version b"
    using inv by (auto simp: clientView_def savedAsVersion_def num_or_def)
  have both: "clientView b m \<longrightarrow> historyCount (Some m) = savedAsVersion (Some m)"
    using hist saved by (simp add: clientView_def)
  from inv hist saved both historyCount_is_length [of m'] show ?thesis
    by simp
qed

lemma exBackend_reachable: "vm_reachable exBackend3"
proof -
  have ok: "generationOk exGeneration"
    by (simp add: generationOk_def exGeneration_def)
  have "vm_create ''Expand?'' None (Some exGeneration) = Inr exBackend1"
    by (simp add: vm_create_def ok exBackend1_def)
  then have r1: "vm_reachable exBackend1" by (rule reach_create)
  have "vm_regenerate (Some 7) (Some exGeneration) exBackend1 = Inr exBackend2"
    by (simp add: vm_regenerate_def ok exBackend2_def) (simp add: exBackend1_def created_def)
  with r1 have r2: "vm_reachable exBackend2" by (rule reach_regenerate)
  have "vm_restore (Some 7) 1 exBackend2 = Inr exBackend3"
    by (simp add: vm_restore_def exBackend3_def exBackend2_def regenerated_def
        exBackend1_def created_def archive_def)
  with r2 show ?thesis by (rule reach_restore)
qed

theorem current_version_counts_history_witness:
  "vm_reachable exBackend3
   \<and> v_current_version exBackend3 = 3
   \<and> length (v_opinion_history exBackend3) = 2
   \<and> obj_or (opinion_history exClient3) [] = v_opinion_history exBackend3
   \<and> clientView exBackend3 exClient3
   \<and> historyCount (Some exClient3) = 3
   \<and> historyLabelCount exClient3 = 3
   \<and> savedAsVersion (Some exClient3) = 3
   \<and> current_version (exMeeting\<lparr>current_version := Some 7,
                                   opinion_history := Some [exVersion1]\<rparr>) = Some 7
   \<and> historyCount (Some (exMeeting\<lparr>current_version := Some 7,
                                      opinion_history := Some [exVersion1]\<rparr>)) = 2
   \<and> historyLabelCount (exMeeting\<lparr>current_version := Some 7,
                                     opinion_history := Some [exVersion1]\<rparr>) = 2"
proof -
  let ?stale = "exMeeting\<lparr>current_version := Some 7, opinion_history := Some [exVersion1]\<rparr>"
  have v: "v_current_version exBackend3 = 3"
    by (simp add: exBackend3_def restored_def exBackend2_def regenerated_def exBackend1_def
        created_def)
  have h: "v_opinion_history exBackend3
             = [archive (Some 7) exBackend1, archive (Some 7) exBackend2]"
    by (simp add: exBackend3_def restored_def exBackend2_def regenerated_def)
       (simp add: exBackend1_def created_def)
  have hv: "obj_or (opinion_history exClient3) [] = v_opinion_history exBackend3"
    by (simp add: exClient3_def h obj_or_def)
  have cv: "clientView exBackend3 exClient3"
    by (simp add: clientView_def exClient3_def v h obj_or_def)
  have stale: "obj_or (opinion_history ?stale) [] = [exVersion1]"
    by (simp add: obj_or_def)
  note t = current_version_counts_history [OF exBackend_reachable, of ?stale exClient3]
  from t hv cv v
  have counts: "historyCount (Some exClient3) = 3" "historyLabelCount exClient3 = 3"
    "savedAsVersion (Some exClient3) = 3"
    by simp_all
  from t stale
  have staleCounts: "historyCount (Some ?stale) = 2" "historyLabelCount ?stale = 2"
    by simp_all
  from exBackend_reachable v h hv cv counts staleCounts show ?thesis
    by simp
qed

end
